theory Spec2Isabelle
  imports Complex_Main "HOL-Library.Multiset"
begin

section \<open>JavaScript primitives used by server.js\<close>


text \<open>White space skipped by \<open>parseInt\<close> (the code units below \<open>0x100\<close> of StrWhiteSpaceChar).\<close>

definition is_ws :: "char \<Rightarrow> bool" where
  "is_ws c = (c \<in> set [CHR 0x09, CHR 0x0A, CHR 0x0B, CHR 0x0C, CHR 0x0D, CHR 0x20, CHR 0xA0])"

text \<open>The value of a character as a digit: \<open>0-9\<close>, then \<open>a-z\<close> and \<open>A-Z\<close> for 10 to 35.\<close>

definition digit_of :: "char \<Rightarrow> nat option" where
  "digit_of c =
     (let n = (of_char c :: nat) in
      if 48 \<le> n \<and> n \<le> 57 then Some (n - 48)
      else if 97 \<le> n \<and> n \<le> 122 then Some (n - 87)
      else if 65 \<le> n \<and> n \<le> 90 then Some (n - 55)
      else None)"

definition is_digit :: "nat \<Rightarrow> char \<Rightarrow> bool" where
  "is_digit R c = (case digit_of c of None \<Rightarrow> False | Some d \<Rightarrow> d < R)"

definition digit_val :: "char \<Rightarrow> nat" where
  "digit_val c = (case digit_of c of None \<Rightarrow> 0 | Some d \<Rightarrow> d)"

definition radix_value :: "nat \<Rightarrow> string \<Rightarrow> nat" where
  "radix_value R Z = foldl (\<lambda>a c. a * R + digit_val c) 0 Z"

text \<open>
  \<open>parseInt(string)\<close> with no radix argument (ECMAScript 19.2.5): skip leading white
  space, take an optional sign, switch to radix 16 after a \<open>0x\<close> or \<open>0X\<close> prefix,
  read the longest prefix of digits, and return \<open>NaN\<close> when that prefix is empty.
  The result is the exact value of the digits, which is JavaScript's result while its
  magnitude is at most \<open>max_safe\<close>.
\<close>

definition parseInt :: "string \<Rightarrow> int option" where
  "parseInt inputString =
     (let S = dropWhile is_ws inputString;
          sign = (if S \<noteq> [] \<and> hd S = CHR ''-'' then - 1 else 1 :: int);
          S1 = (if S \<noteq> [] \<and> (hd S = CHR ''+'' \<or> hd S = CHR ''-'') then tl S else S);
          hex = (take 2 S1 = ''0x'' \<or> take 2 S1 = ''0X'');
          R = (if hex then 16 else 10 :: nat);
          S2 = (if hex then drop 2 S1 else S1);
          Z = takeWhile (is_digit R) S2
      in if Z = [] then None else Some (sign * int (radix_value R Z)))"

text \<open>
  A query parameter or a column of a result row is a string or \<open>undefined\<close> (\<open>None\<close>).
  \<open>ToString(undefined)\<close> is the text \<open>undefined\<close>, in \<open>parseInt\<close> as in a template
  literal.
\<close>

definition to_string :: "string option \<Rightarrow> string" where
  "to_string v = (case v of None \<Rightarrow> ''undefined'' | Some s \<Rightarrow> s)"

definition parseInt_value :: "string option \<Rightarrow> int option" where
  "parseInt_value v = parseInt (to_string v)"

text \<open>\<open>n || d\<close> on numbers: \<open>NaN\<close> and zero are falsy.\<close>

definition or_default :: "int option \<Rightarrow> int \<Rightarrow> int" where
  "or_default v d = (case v of None \<Rightarrow> d | Some n \<Rightarrow> if n = 0 then d else n)"

text \<open>Truthiness of a string or \<open>undefined\<close>: only \<open>undefined\<close> and the empty string are falsy.\<close>

definition truthy :: "string option \<Rightarrow> bool" where
  "truthy v = (case v of None \<Rightarrow> False | Some s \<Rightarrow> s \<noteq> [])"

text \<open>\<open>v || null\<close> on a string or \<open>undefined\<close>; \<open>None\<close> in the result is \<open>null\<close>.\<close>

definition or_null :: "string option \<Rightarrow> string option" where
  "or_null v = (if truthy v then v else None)"

text \<open>
  Number to string, for integers of magnitude up to \<open>max_safe\<close>: decimal digits,
  with a minus sign when negative.
\<close>

definition digit_char :: "nat \<Rightarrow> char" where
  "digit_char d = char_of (48 + d)"

fun show_nat :: "nat \<Rightarrow> string" where
  "show_nat n = (if 10 \<le> n then show_nat (n div 10) else []) @ [digit_char (n mod 10)]"

declare show_nat.simps [simp del]

definition show_int :: "int \<Rightarrow> string" where
  "show_int i = (if i < 0 then CHR ''-'' # show_nat (nat (- i)) else show_nat (nat i))"

text \<open>
  \<open>xs.slice(0, e)\<close>: a negative \<open>e\<close> counts from the end, and the bound is clamped to
  the array.
\<close>

definition slice0 :: "'a list \<Rightarrow> int \<Rightarrow> 'a list" where
  "slice0 xs e =
     (let len = int (length xs);
          final = (if e < 0 then max (len + e) 0 else min e len)
      in take (nat final) xs)"

text \<open>
  \<open>Math.ceil(a / b)\<close> for a positive divisor, on \<open>NaN\<close> or an integer dividend. The
  handler divides by \<open>limit\<close> only after it has checked \<open>1 \<le> limit\<close>.
\<close>

definition ceil_div :: "int option \<Rightarrow> int \<Rightarrow> int option" where
  "ceil_div a b = (case a of None \<Rightarrow> None | Some t \<Rightarrow> Some (- ((- t) div b)))"

text \<open>\<open>a < b\<close> on numbers: false when \<open>b\<close> is \<open>NaN\<close>.\<close>

definition js_less :: "int \<Rightarrow> int option \<Rightarrow> bool" where
  "js_less a b = (case b of None \<Rightarrow> False | Some n \<Rightarrow> a < n)"

section \<open>Requests, responses and the connection pool\<close>

text \<open>
  \<open>req.query\<close>: the four parameters the handler reads, each absent or a string.
  (Repeated or bracketed parameters, which Express parses to arrays and objects, are
  outside the model.)
\<close>

record request =
  q_page :: "string option"
  q_limit :: "string option"
  q_start_date :: "string option"
  q_end_date :: "string option"

text \<open>A result row of the driver: column names with their values as text.\<close>

type_synonym row = "(string \<times> string) list"

record pagination =
  p_total :: "int option"
  p_page :: int
  p_limit :: int
  p_totalPages :: "int option"
  p_hasNextPage :: bool
  p_hasPrevPage :: bool

record filters =
  f_startDate :: "string option"
  f_endDate :: "string option"

text \<open>
  The JSON bodies the server sends. A key whose value is \<open>undefined\<close> is left out by
  \<open>JSON.stringify\<close>: the optional \<open>message\<close>. \<open>None\<close> in a number or in a filter is
  \<open>null\<close>.
\<close>

datatype body =
    PageBody bool "row list" pagination filters
  | ErrorBody bool string "string option"
  | HealthBody string

record response =
  status :: nat
  body :: body

text \<open>
  \<open>pool.query(text, params)\<close>: the promise is fulfilled with the rows (\<open>Inr\<close>) or
  rejected with an error, of which the handler reads only \<open>error.message\<close> (\<open>Inl\<close>).
\<close>

type_synonym pool = "string \<Rightarrow> string list \<Rightarrow> string + row list"

text \<open>The statements handed to the pool by one request, in the order of the calls.\<close>

type_synonym issued = "(string \<times> string list) list"

text \<open>\<open>process.env.NODE_ENV\<close>.\<close>

type_synonym env = "string option"

section \<open>GET /api/commits\<close>

definition quote :: char where
  "quote = CHR 0x27"

text \<open>Lines 63 to 73: the WHERE clause, with the date values spliced into the text.\<close>

definition whereClause :: "string option \<Rightarrow> string option \<Rightarrow> string" where
  "whereClause startDate endDate =
     (if truthy startDate \<and> truthy endDate then
        ''WHERE created_at BETWEEN '' @ [quote] @ to_string startDate @ [quote] @
        ''::timestamptz AND '' @ [quote] @ to_string endDate @ [quote] @ ''::timestamptz''
      else if truthy startDate then
        ''WHERE created_at >= '' @ [quote] @ to_string startDate @ [quote] @ ''::timestamptz''
      else if truthy endDate then
        ''WHERE created_at <= '' @ [quote] @ to_string endDate @ [quote] @ ''::timestamptz''
      else [])"

text \<open>
  Lines 79 to 84: the data statement. The text of \<open>page * limit\<close> is JavaScript's
  while the product is at most \<open>max_safe\<close>.
\<close>

definition query :: "string \<Rightarrow> int \<Rightarrow> int \<Rightarrow> string" where
  "query wc page limit =
     ''\<newline>      SELECT * FROM commits \<newline>      '' @ wc @
     ''\<newline>      ORDER BY created_at ASC\<newline>      LIMIT '' @ show_int limit @
     '' OFFSET '' @ show_int (page * limit) @ ''\<newline>    ''"

text \<open>Lines 87 to 90: the count statement.\<close>

definition countQuery :: "string \<Rightarrow> string" where
  "countQuery wc =
     ''\<newline>      SELECT COUNT(*) AS total FROM commits \<newline>      '' @ wc @ ''\<newline>    ''"

text \<open>Line 64: \<open>queryParams\<close> is created empty and nothing is ever pushed to it.\<close>

definition queryParams :: "string list" where
  "queryParams = []"

text \<open>Line 94.\<close>

definition countQueryParams :: "string \<Rightarrow> string list" where
  "countQueryParams wc =
     (if wc \<noteq> [] then slice0 queryParams (int (length queryParams) - 2) else [])"

text \<open>Lines 125 to 131: the catch block.\<close>

definition server_error :: "env \<Rightarrow> string \<Rightarrow> response" where
  "server_error node_env msg =
     \<lparr>status = 500,
      body = ErrorBody False ''Internal server error''
               (if node_env = Some ''development'' then Some msg else None)\<rparr>"

text \<open>
  The message of the TypeError raised by \<open>countResult.rows[0].total\<close> on no rows,
  as current Node.js words it.
\<close>

definition no_count_row :: string where
  "no_count_row = ''Cannot read properties of undefined (reading '' @ [quote] @ ''total'' @ [quote] @ '')''"

text \<open>Lines 104 to 124: the response built from the two results.\<close>

definition page_response ::
  "int \<Rightarrow> int \<Rightarrow> string option \<Rightarrow> string option \<Rightarrow> row list \<Rightarrow> row \<Rightarrow> response" where
  "page_response page limit startDate endDate commits count_row =
     (let totalCount = parseInt_value (map_of count_row ''total'');
          totalPages = ceil_div totalCount limit
      in \<lparr>status = 200,
          body = PageBody True commits
            \<lparr>p_total = totalCount, p_page = page, p_limit = limit,
             p_totalPages = totalPages,
             p_hasNextPage = js_less page totalPages,
             p_hasPrevPage = (1 < page)\<rparr>
            \<lparr>f_startDate = or_null startDate, f_endDate = or_null endDate\<rparr>\<rparr>)"

text \<open>Lines 39 and 40: the parsed parameters, with their defaults.\<close>

definition page_of :: "request \<Rightarrow> int" where
  "page_of req = or_default (parseInt_value (q_page req)) 1"

definition limit_of :: "request \<Rightarrow> int" where
  "limit_of req = or_default (parseInt_value (q_limit req)) 10"

text \<open>Line 45: the offset of a page. The handler computes it and never reads it again.\<close>

definition offset :: "int \<Rightarrow> int \<Rightarrow> int" where
  "offset page limit = (page - 1) * limit"

text \<open>
  Lines 36 to 133. Both statements are handed to the pool before either result is
  awaited, so both are issued whenever validation passes. When both promises are
  rejected, \<open>Promise.all\<close> rejects with the error that arrives first, a matter of
  timing that the model does not have: it takes the data statement's, and no property
  below says which of the two messages a response carries.
\<close>

definition commits_handler :: "env \<Rightarrow> pool \<Rightarrow> request \<Rightarrow> response \<times> issued" where
  "commits_handler node_env pool_query req =
     (let page = page_of req;
          limit = limit_of req;
          startDate = q_start_date req;
          endDate = q_end_date req
      in if page < 1 \<or> limit < 1 then
           (\<lparr>status = 400,
             body = ErrorBody False ''Page and limit must be positive integers'' None\<rparr>, [])
         else if 100 < limit then
           (\<lparr>status = 400,
             body = ErrorBody False ''Maximum limit is 100 records per request'' None\<rparr>, [])
         else
           (let wc = whereClause startDate endDate;
                q = query wc page limit;
                cq = countQuery wc;
                calls = [(q, queryParams), (cq, countQueryParams wc)]
            in case pool_query q queryParams of
                 Inl err \<Rightarrow> (server_error node_env err, calls)
               | Inr commits \<Rightarrow>
                   (case pool_query cq (countQueryParams wc) of
                      Inl err \<Rightarrow> (server_error node_env err, calls)
                    | Inr [] \<Rightarrow> (server_error node_env no_count_row, calls)
                    | Inr (count_row # _) \<Rightarrow>
                        (page_response page limit startDate endDate commits count_row, calls))))"

section \<open>GET /health\<close>

text \<open>Lines 136 to 138: the handler reads nothing and calls nothing.\<close>

definition health_handler :: "env \<Rightarrow> pool \<Rightarrow> request \<Rightarrow> response \<times> issued" where
  "health_handler node_env pool_query req = (\<lparr>status = 200, body = HealthBody ''ok''\<rparr>, [])"

section \<open>A model of the backing store\<close>

text \<open>
  The handler's only view of the database is the text it hands to \<open>pool.query\<close>. To say
  which rows a request returns, the database is modelled as a table of commits and a
  reader of the statements the handler writes: a lexer that splits the text at white
  space and closes a quoted literal at the next quote, a reader of the two statement
  forms, and their evaluation on the table. The reader is partial: a text it does not
  recognise (other statements, a doubled quote, parameters) is outside the model
  (\<open>None\<close>), and nothing is said about it. Literals are read as PostgreSQL reads
  them under its default setting of \<open>standard_conforming_strings\<close>: a backslash is
  an ordinary character, and only a quote ends the literal.
\<close>

text \<open>
  A commit: its \<open>created_at\<close> as a point in time, and the row the driver returns for
  it (all its columns). \<open>created_at\<close> is never null.
\<close>

record commit =
  created_at :: int
  columns :: row

datatype token = Word string | Lit string

definition is_blank :: "char \<Rightarrow> bool" where
  "is_blank c = (c \<in> set [CHR 0x09, CHR 0x0A, CHR 0x0B, CHR 0x0C, CHR 0x0D, CHR 0x20])"

definition word_char :: "char \<Rightarrow> bool" where
  "word_char c = (\<not> is_blank c \<and> c \<noteq> quote)"

definition not_quote :: "char \<Rightarrow> bool" where
  "not_quote c = (c \<noteq> quote)"

text \<open>
  White space separates tokens. A quote opens a literal that runs to the next quote;
  the text is not read when the literal is not closed or when another quote follows
  the closing one (an escaped quote). Any other character starts a word.
\<close>

function lex :: "string \<Rightarrow> token list option" where
  "lex [] = Some []"
| "lex (c # cs) =
     (if is_blank c then lex cs
      else if c = quote then
        (case dropWhile not_quote cs of
           [] \<Rightarrow> None
         | _ # rest \<Rightarrow>
             if rest \<noteq> [] \<and> hd rest = quote then None
             else map_option (Cons (Lit (takeWhile not_quote cs))) (lex rest))
      else map_option (Cons (Word (c # takeWhile word_char cs))) (lex (dropWhile word_char cs)))"
  by pat_completeness auto
termination
proof (relation "measure length")
  fix c :: char and cs x rest
  assume "dropWhile not_quote cs = x # rest"
  then have "length (x # rest) \<le> length cs"
    using length_dropWhile_le [of not_quote cs] by simp
  then show "(rest, c # cs) \<in> measure length" by simp
next
  fix c :: char and cs
  show "(dropWhile word_char cs, c # cs) \<in> measure length"
    using length_dropWhile_le [of word_char cs] by simp
qed simp_all

declare lex.simps(2) [simp del]

datatype cond = NoCond | Between string string | AtLeast string | AtMost string

datatype statement = Select cond nat nat | Count cond

definition strip :: "'a list \<Rightarrow> 'a list \<Rightarrow> 'a list option" where
  "strip p xs = (if take (length p) xs = p then Some (drop (length p) xs) else None)"

definition read_nat :: "string \<Rightarrow> nat option" where
  "read_nat w = (if w \<noteq> [] \<and> list_all (is_digit 10) w then Some (radix_value 10 w) else None)"

text \<open>The optional condition on \<open>created_at\<close>, and the tokens after it.\<close>

definition read_cond :: "token list \<Rightarrow> (cond \<times> token list) option" where
  "read_cond ts =
     (case strip [Word ''WHERE'', Word ''created_at''] ts of
        None \<Rightarrow> Some (NoCond, ts)
      | Some r \<Rightarrow>
          (case r of
             Word opr # Lit a # Word ty # r1 \<Rightarrow>
               if ty = ''::timestamptz'' \<and> opr = ''>='' then Some (AtLeast a, r1)
               else if ty = ''::timestamptz'' \<and> opr = ''<='' then Some (AtMost a, r1)
               else if ty = ''::timestamptz'' \<and> opr = ''BETWEEN'' then
                 (case r1 of
                    Word an # Lit b # Word ty2 # r2 \<Rightarrow>
                      if an = ''AND'' \<and> ty2 = ''::timestamptz'' then Some (Between a b, r2)
                      else None
                  | _ \<Rightarrow> None)
               else None
           | _ \<Rightarrow> None))"

definition read_select_tail :: "cond \<Rightarrow> token list \<Rightarrow> statement option" where
  "read_select_tail c ts =
     (case strip [Word ''ORDER'', Word ''BY'', Word ''created_at'', Word ''ASC'', Word ''LIMIT''] ts of
        None \<Rightarrow> None
      | Some r \<Rightarrow>
          (case r of
             [Word l, Word kw, Word off] \<Rightarrow>
               (case (read_nat l, read_nat off) of
                  (Some n, Some k) \<Rightarrow> if kw = ''OFFSET'' then Some (Select c n k) else None
                | _ \<Rightarrow> None)
           | _ \<Rightarrow> None))"

definition read_statement :: "token list \<Rightarrow> statement option" where
  "read_statement ts =
     (case strip [Word ''SELECT'', Word ''*'', Word ''FROM'', Word ''commits''] ts of
        Some r \<Rightarrow>
          (case read_cond r of
             None \<Rightarrow> None
           | Some (c, r1) \<Rightarrow> read_select_tail c r1)
      | None \<Rightarrow>
          (case strip [Word ''SELECT'', Word ''COUNT(*)'', Word ''AS'', Word ''total'',
                       Word ''FROM'', Word ''commits''] ts of
             None \<Rightarrow> None
           | Some r \<Rightarrow>
               (case read_cond r of
                  Some (c, []) \<Rightarrow> Some (Count c)
                | _ \<Rightarrow> None)))"

text \<open>
  The rows a condition keeps. \<open>ts_in\<close> is the database's reader of timestamp
  literals, a parameter of the model; a literal it rejects fails the statement, and
  \<open>Inl\<close> names the first such literal.
\<close>

definition keeps :: "(string \<Rightarrow> int option) \<Rightarrow> cond \<Rightarrow> string + (int \<Rightarrow> bool)" where
  "keeps ts_in c =
     (case c of
        NoCond \<Rightarrow> Inr (\<lambda>t. True)
      | AtLeast a \<Rightarrow> (case ts_in a of None \<Rightarrow> Inl a | Some lo \<Rightarrow> Inr (\<lambda>t. lo \<le> t))
      | AtMost b \<Rightarrow> (case ts_in b of None \<Rightarrow> Inl b | Some hi \<Rightarrow> Inr (\<lambda>t. t \<le> hi))
      | Between a b \<Rightarrow>
          (case ts_in a of
             None \<Rightarrow> Inl a
           | Some lo \<Rightarrow>
               (case ts_in b of None \<Rightarrow> Inl b | Some hi \<Rightarrow> Inr (\<lambda>t. lo \<le> t \<and> t \<le> hi))))"

definition matching :: "(int \<Rightarrow> bool) \<Rightarrow> commit list \<Rightarrow> commit list" where
  "matching P table = filter (\<lambda>r. P (created_at r)) table"

text \<open>\<open>LIMIT\<close> and \<open>OFFSET\<close> are of type bigint; a larger number fails the statement.\<close>

definition bigint_max :: int where
  "bigint_max = 9223372036854775807"


text \<open>The statement the model reads from a text, if it reads one.\<close>

definition read_text :: "string \<Rightarrow> statement option" where
  "read_text text = (case lex text of None \<Rightarrow> None | Some ts \<Rightarrow> read_statement ts)"


text \<open>
  One database that can be run: it keeps rows of equal \<open>created_at\<close> in table order
  and words its errors as PostgreSQL does.
\<close>

definition bad_timestamp :: "string \<Rightarrow> string" where
  "bad_timestamp a =
     ''invalid input syntax for type timestamp with time zone: '' @ [CHR 0x22] @ a @ [CHR 0x22]"

definition run_statement ::
  "(string \<Rightarrow> int option) \<Rightarrow> commit list \<Rightarrow> statement \<Rightarrow> string + row list" where
  "run_statement ts_in table st =
     (case st of
        Select c n k \<Rightarrow>
          (case keeps ts_in c of
             Inl a \<Rightarrow> Inl (bad_timestamp a)
           | Inr P \<Rightarrow>
               if bigint_max < int n \<or> bigint_max < int k then Inl ''bigint out of range''
               else Inr (map columns (take n (drop k (sort_key created_at (matching P table))))))
      | Count c \<Rightarrow>
          (case keeps ts_in c of
             Inl a \<Rightarrow> Inl (bad_timestamp a)
           | Inr P \<Rightarrow> Inr [[(''total'', show_nat (length (matching P table)))]]))"

definition store_model ::
  "(string \<Rightarrow> int option) \<Rightarrow> commit list \<Rightarrow> string \<Rightarrow> string list \<Rightarrow> (string + row list) option" where
  "store_model ts_in table text params =
     (if params \<noteq> [] then None else map_option (run_statement ts_in table) (read_text text))"

text \<open>
  A pool that answers as that database does on every statement the model reads, and
  as the pool \<open>other\<close> on the rest: of those the model says nothing.
\<close>

definition model_pool :: "(string \<Rightarrow> int option) \<Rightarrow> commit list \<Rightarrow> pool \<Rightarrow> pool" where
  "model_pool ts_in table other text params =
     (case store_model ts_in table text params of
        None \<Rightarrow> other text params
      | Some r \<Rightarrow> r)"

text \<open>A table of 25 commits, created at times 1 to 25.\<close>

definition commit_no :: "nat \<Rightarrow> commit" where
  "commit_no i = \<lparr>created_at = int i, columns = [(''id'', show_nat i)]\<rparr>"

definition table25 :: "commit list" where
  "table25 = map commit_no [1..<26]"

section \<open>The date filter as the specification words it\<close>



section \<open>Notions used in the proofs\<close>







section \<open>Concrete requests, pools and tables\<close>

definition no_params :: request where
  "no_params = \<lparr>q_page = None, q_limit = None, q_start_date = None, q_end_date = None\<rparr>"

definition page_zero_request :: request where
  "page_zero_request = no_params\<lparr>q_page := Some ''0''\<rparr>"

definition limit_zero_request :: request where
  "limit_zero_request = no_params\<lparr>q_limit := Some ''0''\<rparr>"

definition page1_request :: request where
  "page1_request = no_params\<lparr>q_page := Some ''1'', q_limit := Some ''10''\<rparr>"

definition page2_request :: request where
  "page2_request = no_params\<lparr>q_page := Some ''2'', q_limit := Some ''10''\<rparr>"

definition page3_request :: request where
  "page3_request = no_params\<lparr>q_page := Some ''3'', q_limit := Some ''10''\<rparr>"


definition empty_start_request :: request where
  "empty_start_request = no_params\<lparr>q_start_date := Some [], q_end_date := Some ''2024-01-20''\<rparr>"

definition empty_start_only_request :: request where
  "empty_start_only_request = no_params\<lparr>q_start_date := Some []\<rparr>"

definition bad_date_request :: request where
  "bad_date_request = no_params\<lparr>q_start_date := Some ''soon''\<rparr>"

definition january_request :: request where
  "january_request =
     \<lparr>q_page = Some ''1'', q_limit = Some ''5'',
      q_start_date = Some ''2024-01-05'', q_end_date = Some ''2024-01-20''\<rparr>"

text \<open>
  Two requests with different dates. The quote inside a date closes the literal it
  was spliced into.
\<close>

definition splice_request_a :: request where
  "splice_request_a =
     no_params\<lparr>q_start_date := Some ''2024-01-01'',
               q_end_date := Some ''2024-06-30'::timestamptz AND '2024-12-31''\<rparr>"

definition splice_request_b :: request where
  "splice_request_b =
     no_params\<lparr>q_start_date := Some ''2024-01-01'::timestamptz AND '2024-06-30'',
               q_end_date := Some ''2024-12-31''\<rparr>"

text \<open>A pool that fulfils every statement with one row \<open>{total: "25"}\<close>.\<close>

definition count25_pool :: pool where
  "count25_pool text params = Inr [[(''total'', ''25'')]]"

text \<open>A pool whose store is unreachable.\<close>

definition down_pool :: pool where
  "down_pool text params = Inl ''connect ECONNREFUSED''"


section \<open>Properties of the handlers\<close>

subsection \<open>Truthiness of the date parameters\<close>

lemma truthy_simps [simp]:
  "truthy None = False" "truthy (Some []) = False" "truthy (Some (c # cs)) = True"
  by (simp_all add: truthy_def)






subsection \<open>The health probe\<close>

text \<open>
  C9. Every request to GET /health is answered 200 with the body \<open>{status: "ok"}\<close>,
  whatever the request, the configuration and the pool (also one that rejects every
  statement), and no statement is issued.
\<close>

theorem health_always_ok:
  "health_handler node_env pool_query req = (\<lparr>status = 200, body = HealthBody ''ok''\<rparr>, [])"
  by (simp add: health_handler_def)

subsection \<open>The paths of the commits handler\<close>

lemma parseInt_undefined: "parseInt_value None = None"
  by (simp add: parseInt_value_def to_string_def parseInt_def is_ws_def is_digit_def digit_of_def)

lemma parseInt_zero: "parseInt_value (Some ''0'') = Some 0"
  by (simp add: parseInt_value_def to_string_def parseInt_def is_ws_def is_digit_def
      digit_of_def radix_value_def digit_val_def)


lemma countQueryParams_empty [simp]: "countQueryParams wc = []"
  by (simp add: countQueryParams_def queryParams_def slice0_def)

text \<open>A request whose parsed page or limit is out of range is answered 400, and no statement is issued.\<close>

lemma handler_rejects:
  "page_of req < 1 \<or> limit_of req < 1 \<or> 100 < limit_of req \<Longrightarrow>
   status (fst (commits_handler e p req)) = 400 \<and> snd (commits_handler e p req) = []
   \<and> (\<exists>msg. body (fst (commits_handler e p req)) = ErrorBody False msg None)"
  by (auto simp add: commits_handler_def Let_def)

text \<open>Any other request issues the two statements, with no parameters.\<close>

lemma handler_issues:
  "1 \<le> page_of req \<Longrightarrow> 1 \<le> limit_of req \<Longrightarrow> limit_of req \<le> 100 \<Longrightarrow>
   snd (commits_handler e p req) =
     [(query (whereClause (q_start_date req) (q_end_date req)) (page_of req) (limit_of req), []),
      (countQuery (whereClause (q_start_date req) (q_end_date req)), [])]"
  by (simp add: commits_handler_def Let_def queryParams_def split: sum.splits list.splits)

lemma handler_not_rejected:
  "1 \<le> page_of req \<Longrightarrow> 1 \<le> limit_of req \<Longrightarrow> limit_of req \<le> 100 \<Longrightarrow>
   status (fst (commits_handler e p req)) \<noteq> 400"
  by (simp add: commits_handler_def Let_def server_error_def page_response_def
      split: sum.splits list.splits)

text \<open>A page response is built from the fulfilled results of both statements.\<close>

lemma handler_success:
  assumes "fst (commits_handler e p req) = \<lparr>status = s, body = PageBody ok d pg f\<rparr>"
  shows "1 \<le> page_of req \<and> 1 \<le> limit_of req \<and> limit_of req \<le> 100 \<and>
    (\<exists>count_row rest.
       p (query (whereClause (q_start_date req) (q_end_date req)) (page_of req) (limit_of req)) [] = Inr d \<and>
       p (countQuery (whereClause (q_start_date req) (q_end_date req))) [] = Inr (count_row # rest) \<and>
       \<lparr>status = s, body = PageBody ok d pg f\<rparr> =
         page_response (page_of req) (limit_of req) (q_start_date req) (q_end_date req) d count_row)"
  using assms
  by (auto simp add: commits_handler_def Let_def server_error_def queryParams_def page_response_def
      split: if_splits sum.splits list.splits)

lemma no_params_parsed: "page_of no_params = 1" "limit_of no_params = 10"
  by (simp_all add: page_of_def limit_of_def no_params_def parseInt_undefined or_default_def)

subsection \<open>Validation and defaults\<close>

text \<open>
  C2, at the inputs the claim names. \<open>page=0\<close> is parsed to 0, which \<open>||\<close> replaces
  by the default 1 before the range check runs: the request is not answered 400 and
  both statements are issued, for page 1. In the same way \<open>limit=0\<close> becomes limit 10.
\<close>

theorem zero_is_defaulted_not_rejected:
  "page_of page_zero_request = 1
   \<and> status (fst (commits_handler e p page_zero_request)) \<noteq> 400
   \<and> snd (commits_handler e p page_zero_request) = [(query [] 1 10, []), (countQuery [], [])]
   \<and> limit_of limit_zero_request = 10
   \<and> status (fst (commits_handler e p limit_zero_request)) \<noteq> 400
   \<and> snd (commits_handler e p limit_zero_request) = [(query [] 1 10, []), (countQuery [], [])]"
proof -
  have pz: "page_of page_zero_request = 1" "limit_of page_zero_request = 10"
    by (simp_all add: page_of_def limit_of_def page_zero_request_def no_params_def
        parseInt_undefined parseInt_zero or_default_def)
  have lz: "page_of limit_zero_request = 1" "limit_of limit_zero_request = 10"
    by (simp_all add: page_of_def limit_of_def limit_zero_request_def no_params_def
        parseInt_undefined parseInt_zero or_default_def)
  have w: "whereClause (q_start_date page_zero_request) (q_end_date page_zero_request) = []"
    "whereClause (q_start_date limit_zero_request) (q_end_date limit_zero_request) = []"
    by (simp_all add: whereClause_def page_zero_request_def limit_zero_request_def no_params_def)
  show ?thesis
    using handler_not_rejected [of page_zero_request e p] handler_issues [of page_zero_request e p]
      handler_not_rejected [of limit_zero_request e p] handler_issues [of limit_zero_request e p]
    by (simp add: pz lz w)
qed






subsection \<open>Pagination metadata\<close>

lemma ceil_div_is_ceiling:
  "ceil_div (Some t) b = Some \<lceil>real_of_int t / real_of_int b\<rceil>"
  by (simp add: ceil_div_def ceiling_divide_eq_div)

text \<open>
  C4. In every page response, \<open>page\<close> and \<open>limit\<close> are the validated request values,
  \<open>total\<close> is the number parsed from the \<open>total\<close> column of the first row of the
  count statement's result, \<open>totalPages\<close> is the ceiling of \<open>total / limit\<close> (null
  when \<open>total\<close> is not a number), \<open>hasNextPage\<close> is \<open>page < totalPages\<close> and
  \<open>hasPrevPage\<close> is \<open>page > 1\<close>.
\<close>

theorem pagination_metadata:
  assumes "fst (commits_handler e p req) = \<lparr>status = s, body = PageBody ok d pg f\<rparr>"
  shows "p_page pg = page_of req \<and> p_limit pg = limit_of req
    \<and> 1 \<le> page_of req \<and> 1 \<le> limit_of req \<and> limit_of req \<le> 100
    \<and> (\<exists>count_row rest.
          p (countQuery (whereClause (q_start_date req) (q_end_date req))) [] = Inr (count_row # rest)
          \<and> p_total pg = parseInt_value (map_of count_row ''total''))
    \<and> p_totalPages pg =
          map_option (\<lambda>t. \<lceil>real_of_int t / real_of_int (limit_of req)\<rceil>) (p_total pg)
    \<and> p_hasNextPage pg =
          (case p_totalPages pg of None \<Rightarrow> False | Some tp \<Rightarrow> page_of req < tp)
    \<and> p_hasPrevPage pg = (1 < page_of req)"
proof -
  from handler_success [OF assms] obtain count_row rest where
    v: "1 \<le> page_of req" "1 \<le> limit_of req" "limit_of req \<le> 100" and
    c: "p (countQuery (whereClause (q_start_date req) (q_end_date req))) [] = Inr (count_row # rest)" and
    r: "\<lparr>status = s, body = PageBody ok d pg f\<rparr> =
         page_response (page_of req) (limit_of req) (q_start_date req) (q_end_date req) d count_row"
    by blast
  let ?total = "parseInt_value (map_of count_row ''total'')"
  from r have pg: "pg = \<lparr>p_total = ?total, p_page = page_of req, p_limit = limit_of req,
      p_totalPages = ceil_div ?total (limit_of req),
      p_hasNextPage = js_less (page_of req) (ceil_div ?total (limit_of req)),
      p_hasPrevPage = (1 < page_of req)\<rparr>"
    by (simp add: page_response_def Let_def)
  have tp: "p_totalPages pg =
      map_option (\<lambda>t. \<lceil>real_of_int t / real_of_int (limit_of req)\<rceil>) (p_total pg)"
  proof (cases ?total)
    case None
    then show ?thesis by (simp add: pg ceil_div_def)
  next
    case (Some t)
    then show ?thesis by (simp add: pg ceil_div_is_ceiling)
  qed
  have nx: "p_hasNextPage pg =
      (case p_totalPages pg of None \<Rightarrow> False | Some tp \<Rightarrow> page_of req < tp)"
    by (simp add: pg js_less_def)
  from v c tp nx show ?thesis by (auto simp add: pg)
qed

lemma page2_parsed: "page_of page2_request = 2" "limit_of page2_request = 10"
  by (simp_all add: page_of_def limit_of_def page2_request_def no_params_def parseInt_value_def
      to_string_def parseInt_def is_ws_def is_digit_def digit_of_def radix_value_def digit_val_def
      or_default_def)

lemma page2_response:
  "fst (commits_handler None count25_pool page2_request) =
     \<lparr>status = 200,
      body = PageBody True [[(''total'', ''25'')]]
        \<lparr>p_total = Some 25, p_page = 2, p_limit = 10, p_totalPages = Some 3,
         p_hasNextPage = True, p_hasPrevPage = True\<rparr>
        \<lparr>f_startDate = None, f_endDate = None\<rparr>\<rparr>"
  by code_simp

theorem pagination_metadata_witness:
  "fst (commits_handler None count25_pool page2_request) =
     \<lparr>status = 200,
      body = PageBody True [[(''total'', ''25'')]]
        \<lparr>p_total = Some 25, p_page = 2, p_limit = 10, p_totalPages = Some 3,
         p_hasNextPage = True, p_hasPrevPage = True\<rparr>
        \<lparr>f_startDate = None, f_endDate = None\<rparr>\<rparr>
   \<and> Some (3::int) = map_option (\<lambda>t. \<lceil>real_of_int t / real_of_int 10\<rceil>) (Some 25)
   \<and> page_of page2_request = 2 \<and> limit_of page2_request = 10"
  using pagination_metadata [OF page2_response] page2_response
  by (simp add: page2_parsed)

subsection \<open>Failures of the backing store\<close>

text \<open>
  C7. When the pool rejects either statement of a request, the response is 500 with
  \<open>success: false\<close> and the error \<open>Internal server error\<close>; it carries the rejected
  statement's message only when \<open>NODE_ENV\<close> is \<open>development\<close>, and it is an error
  body, with no data and no pagination.
\<close>

theorem store_failure_is_500:
  assumes "(t, ps) \<in> set (snd (commits_handler e p req))" and "p t ps = Inl m"
  shows "status (fst (commits_handler e p req)) = 500
    \<and> (\<exists>t' ps' msg. (t', ps') \<in> set (snd (commits_handler e p req)) \<and> p t' ps' = Inl msg
         \<and> body (fst (commits_handler e p req)) =
             ErrorBody False ''Internal server error''
               (if e = Some ''development'' then Some msg else None))"
proof -
  have v: "1 \<le> page_of req \<and> 1 \<le> limit_of req \<and> limit_of req \<le> 100"
    using assms(1) handler_rejects [of req e p] by fastforce
  show ?thesis
    using assms v
    by (auto simp add: commits_handler_def Let_def server_error_def queryParams_def
        split: sum.splits list.splits)
qed

theorem store_failure_is_500_witness:
  "(query [] 1 10, []) \<in> set (snd (commits_handler (Some ''production'') down_pool no_params))
   \<and> down_pool (query [] 1 10) [] = Inl ''connect ECONNREFUSED''
   \<and> status (fst (commits_handler (Some ''production'') down_pool no_params)) = 500
   \<and> body (fst (commits_handler (Some ''production'') down_pool no_params)) =
       ErrorBody False ''Internal server error'' None"
proof -
  have w: "whereClause (q_start_date no_params) (q_end_date no_params) = []"
    by (simp add: whereClause_def no_params_def)
  have i: "(query [] 1 10, []) \<in> set (snd (commits_handler (Some ''production'') down_pool no_params))"
    using handler_issues [of no_params "Some ''production''" down_pool]
    by (simp add: no_params_parsed w)
  have d: "down_pool (query [] 1 10) [] = Inl ''connect ECONNREFUSED''"
    by (simp add: down_pool_def)
  show ?thesis
    using store_failure_is_500 [OF i d] i d by auto
qed

subsection \<open>The echoed filters\<close>

text \<open>
  C8 as stated fails on an empty value: the request supplies \<open>start_date\<close> as the
  empty string, and the page response echoes null for it.
\<close>

theorem empty_start_echoed_as_null:
  "q_start_date empty_start_request = Some []
   \<and> fst (commits_handler None count25_pool empty_start_request) =
       \<lparr>status = 200,
        body = PageBody True [[(''total'', ''25'')]]
          \<lparr>p_total = Some 25, p_page = 1, p_limit = 10, p_totalPages = Some 3,
           p_hasNextPage = True, p_hasPrevPage = False\<rparr>
          \<lparr>f_startDate = None, f_endDate = Some ''2024-01-20''\<rparr>\<rparr>"
proof -
  have "q_start_date empty_start_request = Some []"
    by (simp add: empty_start_request_def no_params_def)
  moreover have "fst (commits_handler None count25_pool empty_start_request) =
       \<lparr>status = 200,
        body = PageBody True [[(''total'', ''25'')]]
          \<lparr>p_total = Some 25, p_page = 1, p_limit = 10, p_totalPages = Some 3,
           p_hasNextPage = True, p_hasPrevPage = False\<rparr>
          \<lparr>f_startDate = None, f_endDate = Some ''2024-01-20''\<rparr>\<rparr>"
    by code_simp
  ultimately show ?thesis by simp
qed

text \<open>
  C8, amended. In every page response the filters echo the supplied \<open>start_date\<close>
  and \<open>end_date\<close>, with null for a value that is absent or empty, whatever the data.
\<close>

theorem filters_echo:
  assumes "fst (commits_handler e p req) = \<lparr>status = s, body = PageBody ok d pg f\<rparr>"
  shows "f_startDate f = (if q_start_date req = Some [] then None else q_start_date req)
       \<and> f_endDate f = (if q_end_date req = Some [] then None else q_end_date req)"
proof -
  from handler_success [OF assms] obtain count_row where
    "\<lparr>status = s, body = PageBody ok d pg f\<rparr> =
       page_response (page_of req) (limit_of req) (q_start_date req) (q_end_date req) d count_row"
    by blast
  then have "f = \<lparr>f_startDate = or_null (q_start_date req), f_endDate = or_null (q_end_date req)\<rparr>"
    by (simp add: page_response_def Let_def)
  then show ?thesis
    by (cases "q_start_date req"; cases "q_end_date req") (auto simp add: or_null_def truthy_def)
qed

lemma january_response:
  "fst (commits_handler None count25_pool january_request) =
     \<lparr>status = 200,
      body = PageBody True [[(''total'', ''25'')]]
        \<lparr>p_total = Some 25, p_page = 1, p_limit = 5, p_totalPages = Some 5,
         p_hasNextPage = True, p_hasPrevPage = False\<rparr>
        \<lparr>f_startDate = Some ''2024-01-05'', f_endDate = Some ''2024-01-20''\<rparr>\<rparr>"
  by code_simp

theorem filters_echo_witness:
  "fst (commits_handler None count25_pool january_request) =
     \<lparr>status = 200,
      body = PageBody True [[(''total'', ''25'')]]
        \<lparr>p_total = Some 25, p_page = 1, p_limit = 5, p_totalPages = Some 5,
         p_hasNextPage = True, p_hasPrevPage = False\<rparr>
        \<lparr>f_startDate = Some ''2024-01-05'', f_endDate = Some ''2024-01-20''\<rparr>\<rparr>
   \<and> q_start_date january_request = Some ''2024-01-05''
   \<and> q_end_date january_request = Some ''2024-01-20''"
  using filters_echo [OF january_response] january_response
  by (simp add: january_request_def)

subsection \<open>Date values in the statement text\<close>

lemma splice_parsed:
  "page_of splice_request_a = 1" "limit_of splice_request_a = 10"
  "page_of splice_request_b = 1" "limit_of splice_request_b = 10"
  by (simp_all add: page_of_def limit_of_def splice_request_a_def splice_request_b_def
      no_params_def parseInt_undefined or_default_def)

lemma splice_where_a:
  "whereClause (q_start_date splice_request_a) (q_end_date splice_request_a) =
   ''WHERE created_at BETWEEN '2024-01-01'::timestamptz AND '2024-06-30'::timestamptz AND '2024-12-31'::timestamptz''"
  by (simp add: splice_request_a_def no_params_def whereClause_def to_string_def quote_def)

lemma splice_where_b:
  "whereClause (q_start_date splice_request_b) (q_end_date splice_request_b) =
   ''WHERE created_at BETWEEN '2024-01-01'::timestamptz AND '2024-06-30'::timestamptz AND '2024-12-31'::timestamptz''"
  by (simp add: splice_request_b_def no_params_def whereClause_def to_string_def quote_def)

text \<open>
  C3, at a failing input. The dates are written into the statement text and none is
  handed over as a parameter: two requests with different start and end dates issue the
  same two statements, each with an empty parameter list, so the store cannot tell
  where a date value ends and the statement goes on. Here the end date of the first
  request is read as a literal, a cast, an \<open>AND\<close> and a second literal.
\<close>

theorem dates_are_spliced_into_text:
  "q_start_date splice_request_a \<noteq> q_start_date splice_request_b
   \<and> q_end_date splice_request_a \<noteq> q_end_date splice_request_b
   \<and> snd (commits_handler e p splice_request_a) = snd (commits_handler e p splice_request_b)
   \<and> map snd (snd (commits_handler e p splice_request_a)) = [[], []]
   \<and> whereClause (q_start_date splice_request_a) (q_end_date splice_request_a) =
      ''WHERE created_at BETWEEN '2024-01-01'::timestamptz AND '2024-06-30'::timestamptz AND '2024-12-31'::timestamptz''"
proof -
  have "q_start_date splice_request_a \<noteq> q_start_date splice_request_b"
    "q_end_date splice_request_a \<noteq> q_end_date splice_request_b"
    by (simp_all add: splice_request_a_def splice_request_b_def no_params_def)
  moreover have "snd (commits_handler e p splice_request_a) = snd (commits_handler e p splice_request_b)"
    by (simp add: handler_issues splice_parsed splice_where_a splice_where_b)
  moreover have "map snd (snd (commits_handler e p splice_request_a)) = [[], []]"
    by (simp add: handler_issues splice_parsed)
  ultimately show ?thesis using splice_where_a by simp
qed

text \<open>For every request, each issued statement has an empty parameter list.\<close>

lemma no_statement_has_parameters:
  "(t, ps) \<in> set (snd (commits_handler e p req)) \<Longrightarrow> ps = []"
  by (auto simp add: commits_handler_def Let_def queryParams_def
      split: if_splits sum.splits list.splits)

subsection \<open>Decimal digits: printing and reading\<close>
















subsection \<open>The lexer on the text the handler writes\<close>





























subsection \<open>The store model on the handler's statements\<close>










subsection \<open>The date filter\<close>

lemma empty_start_only_parsed:
  "page_of empty_start_only_request = 1" "limit_of empty_start_only_request = 10"
  "page_of bad_date_request = 1" "limit_of bad_date_request = 10"
  by (simp_all add: page_of_def limit_of_def empty_start_only_request_def bad_date_request_def
      no_params_def parseInt_undefined or_default_def)








subsection \<open>The offset of a page\<close>

text \<open>
  C1, at a failing input: 25 commits, no filter, \<open>limit=10\<close>. The handler writes
  \<open>page * limit\<close> into the statement, not the offset \<open>(page - 1) * limit\<close> of
  line 45. For page 3 the statement reads \<open>LIMIT 10 OFFSET 30\<close> and the page is
  empty, where the block at offset 20 has five records; page 1 returns the records 11
  to 20, the second block.
\<close>

theorem offset_skips_a_page:
  "fst (commits_handler e (model_pool ts_in table25 other) page3_request) =
     \<lparr>status = 200,
      body = PageBody True []
        \<lparr>p_total = Some 25, p_page = 3, p_limit = 10, p_totalPages = Some 3,
         p_hasNextPage = False, p_hasPrevPage = True\<rparr>
        \<lparr>f_startDate = None, f_endDate = None\<rparr>\<rparr>
   \<and> map fst (snd (commits_handler e (model_pool ts_in table25 other) page3_request)) =
       [''\<newline>      SELECT * FROM commits \<newline>      \<newline>      ORDER BY created_at ASC\<newline>      LIMIT 10 OFFSET 30\<newline>    '',
        ''\<newline>      SELECT COUNT(*) AS total FROM commits \<newline>      \<newline>    '']
   \<and> offset (page_of page3_request) (limit_of page3_request) = 20
   \<and> length (take 10 (drop 20 table25)) = 5
   \<and> fst (commits_handler e (model_pool ts_in table25 other) page1_request) =
     \<lparr>status = 200,
      body = PageBody True (map columns (take 10 (drop 10 table25)))
        \<lparr>p_total = Some 25, p_page = 1, p_limit = 10, p_totalPages = Some 3,
         p_hasNextPage = True, p_hasPrevPage = False\<rparr>
        \<lparr>f_startDate = None, f_endDate = None\<rparr>\<rparr>"
proof -
  have "fst (commits_handler e (model_pool ts_in table25 other) page3_request) =
     \<lparr>status = 200,
      body = PageBody True []
        \<lparr>p_total = Some 25, p_page = 3, p_limit = 10, p_totalPages = Some 3,
         p_hasNextPage = False, p_hasPrevPage = True\<rparr>
        \<lparr>f_startDate = None, f_endDate = None\<rparr>\<rparr>"
    by code_simp
  moreover have "map fst (snd (commits_handler e (model_pool ts_in table25 other) page3_request)) =
       [''\<newline>      SELECT * FROM commits \<newline>      \<newline>      ORDER BY created_at ASC\<newline>      LIMIT 10 OFFSET 30\<newline>    '',
        ''\<newline>      SELECT COUNT(*) AS total FROM commits \<newline>      \<newline>    '']"
    by code_simp
  moreover have "offset (page_of page3_request) (limit_of page3_request) = 20"
    by code_simp
  moreover have "length (take 10 (drop 20 table25)) = 5"
    by code_simp
  moreover have "fst (commits_handler e (model_pool ts_in table25 other) page1_request) =
     \<lparr>status = 200,
      body = PageBody True (map columns (take 10 (drop 10 table25)))
        \<lparr>p_total = Some 25, p_page = 1, p_limit = 10, p_totalPages = Some 3,
         p_hasNextPage = True, p_hasPrevPage = False\<rparr>
        \<lparr>f_startDate = None, f_endDate = None\<rparr>\<rparr>"
    by code_simp
  ultimately show ?thesis by simp
qed

end
